theory Spec2Isabelle
  imports Complex_Main "HOL-Library.Multiset" "HOL-Library.List_Lexorder" "HOL-Library.Char_ord"
    "HOL-Library.Log_Nat"
begin

section \<open>The benchmark table\<close>

text \<open>
  \<^verbatim>\<open>plot_performance.py\<close> reads \<^verbatim>\<open>benchmark_results.csv\<close> into a pandas DataFrame
  with six columns. A row of the table is a record; the integer columns are int64 and
  \<^verbatim>\<open>Time(ns)\<close> is a finite number read from the file.
\<close>

record row =
  ArraySize :: int
  InputType :: string
  HasMajority :: bool
  Time_ns :: real
  Comparisons :: int
  ArrayAccess :: int

text \<open>
  A float64 result. The three special values of IEEE arithmetic are kept, since pandas
  produces them instead of raising: a division by zero, the standard deviation of a single
  value, the correlation of a constant column. A finite value is a real number. The
  aggregates of the next section compute with exact reals; the rounding of the binary
  format after every operation, which makes a sum depend on the order of its terms, is
  added in the section on binary64 below for the mean of TimePerElement.
\<close>

datatype float64 = NaN | NInf | Fin real | PInf

text \<open>
  The DataFrame object: the six columns as loaded, and the derived column
  \<^verbatim>\<open>TimePerElement\<close>, absent until \<^verbatim>\<open>generate_statistical_summary\<close> assigns it.
\<close>

record dataframe =
  rows :: "row list"
  TimePerElement :: "float64 list option"

section \<open>pandas and numpy operations\<close>

text \<open>\<^verbatim>\<open>Series.unique()\<close>: the distinct values in order of first appearance.\<close>

fun unique :: "'a list \<Rightarrow> 'a list" where
  "unique [] = []"
| "unique (x # xs) = x # unique (filter (\<lambda>y. y \<noteq> x) xs)"

text \<open>
  \<^verbatim>\<open>groupby(key)[col]\<close>: one group per distinct key, the keys in ascending order
  (\<^verbatim>\<open>sort=True\<close> is the default), each with the values of its rows in table order.
\<close>

definition groupby :: "('k::linorder) list \<Rightarrow> 'v list \<Rightarrow> ('k \<times> 'v list) list" where
  "groupby keys vals =
     map (\<lambda>k. (k, map snd (filter (\<lambda>kv. fst kv = k) (zip keys vals)))) (sort (unique keys))"

text \<open>Aggregates of a column of finite values.\<close>

definition mean :: "real list \<Rightarrow> float64" where
  "mean xs = (if xs = [] then NaN else Fin (sum_list xs / real (length xs)))"

text \<open>The sample standard deviation (\<^verbatim>\<open>ddof=1\<close>): NaN below two values.\<close>

definition std :: "real list \<Rightarrow> float64" where
  "std xs =
     (if length xs < 2 then NaN
      else let m = sum_list xs / real (length xs)
           in Fin (sqrt (sum_list (map (\<lambda>x. (x - m)\<^sup>2) xs) / real (length xs - 1))))"

definition min_agg :: "real list \<Rightarrow> float64" where
  "min_agg xs = (case xs of [] \<Rightarrow> NaN | x # ys \<Rightarrow> Fin (fold min ys x))"

definition max_agg :: "real list \<Rightarrow> float64" where
  "max_agg xs = (case xs of [] \<Rightarrow> NaN | x # ys \<Rightarrow> Fin (fold max ys x))"

text \<open>
  The mean of a float64 column skips NaN (\<^verbatim>\<open>skipna\<close>); infinities add as in IEEE
  arithmetic.
\<close>

fun fin_val :: "float64 \<Rightarrow> real" where
  "fin_val (Fin x) = x"
| "fin_val _ = 0"

definition nanmean :: "float64 list \<Rightarrow> float64" where
  "nanmean vs =
     (let xs = filter (\<lambda>v. v \<noteq> NaN) vs
      in if xs = [] then NaN
         else if PInf \<in> set xs \<and> NInf \<in> set xs then NaN
         else if PInf \<in> set xs then PInf
         else if NInf \<in> set xs then NInf
         else Fin (sum_list (map fin_val xs) / real (length xs)))"

text \<open>
  \<^verbatim>\<open>Series / Series\<close>: true division, elementwise. pandas does not raise on a zero
  denominator: the entry is an infinity with the sign of the numerator, or NaN for 0/0.
\<close>

definition true_divide :: "real \<Rightarrow> real \<Rightarrow> float64" where
  "true_divide t n =
     (if n \<noteq> 0 then Fin (t / n)
      else if 0 < t then PInf else if t < 0 then NInf else NaN)"

text \<open>Rounding to \<open>k\<close> decimals, halves to even; special values stay.\<close>

definition rint :: "real \<Rightarrow> int" where
  "rint x =
     (let f = \<lfloor>x\<rfloor>; d = x - of_int f
      in if d < 1 / 2 then f else if 1 / 2 < d then f + 1
         else if even f then f else f + 1)"

definition round_dec :: "nat \<Rightarrow> float64 \<Rightarrow> float64" where
  "round_dec k v = (case v of Fin x \<Rightarrow> Fin (of_int (rint (x * 10 ^ k)) / 10 ^ k) | _ \<Rightarrow> v)"

text \<open>
  \<^verbatim>\<open>DataFrame.corr()\<close>: the matrix of pairwise Pearson coefficients of the columns;
  NaN where a column has no variation (or the table has fewer than two rows).
\<close>

definition pearson :: "real list \<Rightarrow> real list \<Rightarrow> float64" where
  "pearson xs ys =
     (let mx = sum_list xs / real (length xs);
          my = sum_list ys / real (length ys);
          cov = sum_list (map (\<lambda>(x, y). (x - mx) * (y - my)) (zip xs ys));
          vx = sum_list (map (\<lambda>x. (x - mx)\<^sup>2) xs);
          vy = sum_list (map (\<lambda>y. (y - my)\<^sup>2) ys);
          d = sqrt (vx * vy)
      in if d = 0 then NaN else Fin (cov / d))"

definition corr :: "real list list \<Rightarrow> float64 list list" where
  "corr cols = map (\<lambda>a. map (\<lambda>b. pearson a b) cols) cols"

definition iloc :: "'a list list \<Rightarrow> nat \<Rightarrow> nat \<Rightarrow> 'a" where
  "iloc m i j = m ! i ! j"

text \<open>numpy int64 multiplication wraps around.\<close>

definition int64 :: "int \<Rightarrow> int" where
  "int64 x = (x + 2 ^ 63) mod 2 ^ 64 - 2 ^ 63"

section \<open>Figures, files and the console\<close>

datatype error = UnicodeDecodeError | ValueError

record series =
  xdata :: "int list"
  ydata :: "float64 list"
  fmt :: string
  label :: string

text \<open>\<^verbatim>\<open>plt.plot(x, y, fmt, label=...)\<close> raises ValueError when x and y differ in length.\<close>

definition plot :: "int list \<Rightarrow> float64 list \<Rightarrow> string \<Rightarrow> string \<Rightarrow> error + series" where
  "plot x y f l =
     (if length x \<noteq> length y then Inl ValueError
      else Inr \<lparr>xdata = x, ydata = y, fmt = f, label = l\<rparr>)"

text \<open>
  One subplot: its line series in the order plotted, its box plot if one was drawn
  (one box per category, in order of first appearance), its scale and its texts.
\<close>

record axes =
  lines :: "series list"
  boxes :: "(string \<times> real list) list option"
  loglog :: bool
  xlabel :: string
  ylabel :: string
  title :: string

datatype file_content = Csv "row list" | Png "axes list"

datatype pyval =
    VInt int
  | VInts "int list"
  | VStrs "string list"
  | VFloat float64
  | VSeriesI "(int \<times> float64) list"
  | VFrameI "(int \<times> float64 list) list"
  | VFrameS "(string \<times> float64 list) list"

text \<open>
  A printed line: a literal text, or (for an f-string with one field, and for
  \<^verbatim>\<open>print(obj)\<close>) a literal prefix followed by the value shown.
\<close>

datatype line = Print string | PrintF string pyval

record world =
  fs :: "string \<rightharpoonup> file_content"
  stdout :: "line list"

definition print :: "line \<Rightarrow> world \<Rightarrow> world" where
  "print l w = w\<lparr>stdout := stdout w @ [l]\<rparr>"

definition savefig :: "string \<Rightarrow> axes list \<Rightarrow> world \<Rightarrow> world" where
  "savefig path fig w = w\<lparr>fs := (fs w)(path \<mapsto> Png fig)\<rparr>"

text \<open>A \<^verbatim>\<open>for\<close> loop whose body adds lines to the current subplot, or raises.\<close>

fun for_each :: "('a \<Rightarrow> error + 'b list) \<Rightarrow> 'a list \<Rightarrow> error + 'b list" where
  "for_each body [] = Inr []"
| "for_each body (x # xs) =
     (case body x of
        Inl e \<Rightarrow> Inl e
      | Inr ls \<Rightarrow> (case for_each body xs of Inl e \<Rightarrow> Inl e | Inr ms \<Rightarrow> Inr (ls @ ms)))"

section \<open>The script\<close>

definition csv_file :: string where
  "csv_file = ''benchmark_results.csv''"

text \<open>
  The functions of the script follow. Styling calls (\<^verbatim>\<open>plt.style.use\<close>, the palette,
  legends, grids, \<^verbatim>\<open>tight_layout\<close>) and \<^verbatim>\<open>plt.show()\<close> leave no trace in the saved
  data and are not modelled; the plotting environment itself is taken to work.
\<close>

text \<open>
  \<^verbatim>\<open>load_and_analyze_data\<close>: without the file, one printed line and the result None;
  a file that is not text (here: an image) makes \<^verbatim>\<open>read_csv\<close> raise.
\<close>

definition load_and_analyze_data :: "world \<Rightarrow> error + (dataframe option \<times> world)" where
  "load_and_analyze_data w =
     (case fs w csv_file of
        None \<Rightarrow>
          Inr (None, print (Print (''Error: '' @ csv_file @ '' not found. Run benchmarks first.'')) w)
      | Some (Png _) \<Rightarrow> Inl UnicodeDecodeError
      | Some (Csv rs) \<Rightarrow>
          (let d = \<lparr>rows = rs, TimePerElement = None\<rparr>;
               w1 = print (Print ''Data loaded successfully:'') w;
               w2 = print (PrintF ''Total records: '' (VInt (int (length (rows d))))) w1;
               w3 = print (PrintF ''Array sizes: '' (VInts (unique (map ArraySize (rows d))))) w2;
               w4 = print (PrintF ''Distributions: '' (VStrs (unique (map InputType (rows d))))) w3
           in Inr (Some d, w4)))"

text \<open>
  \<^verbatim>\<open>subset.groupby('ArraySize')[col].mean()\<close>: the Series of group means, as
  (index, value) pairs.
\<close>

definition mean_by_size :: "(row \<Rightarrow> real) \<Rightarrow> row list \<Rightarrow> (int \<times> float64) list" where
  "mean_by_size col subdf =
     map (\<lambda>(k, vs). (k, mean vs)) (groupby (map ArraySize subdf) (map col subdf))"

definition panel_a :: "row list \<Rightarrow> error + axes" where
  "panel_a rs =
     (case for_each
             (\<lambda>distribution.
                let subdf = filter (\<lambda>r. InputType r = distribution) rs;
                    grouped = mean_by_size Time_ns subdf
                in map_sum id (\<lambda>s. [s]) (plot (map fst grouped) (map snd grouped) ''o-'' distribution))
             (unique (map InputType rs)) of
        Inl e \<Rightarrow> Inl e
      | Inr ls \<Rightarrow>
          Inr \<lparr>lines = ls, boxes = None, loglog = (ls \<noteq> []), xlabel = ''Array Size'',
               ylabel = ''Time (ns)'',
               title = ''Time Complexity Analysis'' @ [CHR 0x0A] @ ''(Log-Log Scale)''\<rparr>)"

definition panel_b :: "row list \<Rightarrow> error + axes" where
  "panel_b rs =
     (case for_each
             (\<lambda>distribution.
                let subdf = filter (\<lambda>r. InputType r = distribution) rs
                in if length subdf > 0
                   then let grouped = mean_by_size (\<lambda>r. real_of_int (Comparisons r)) subdf
                        in map_sum id (\<lambda>s. [s])
                             (plot (map fst grouped) (map snd grouped) ''o-'' distribution)
                   else Inr [])
             [''RANDOM'', ''SORTED'', ''WORST_CASE''] of
        Inl e \<Rightarrow> Inl e
      | Inr ls \<Rightarrow>
          Inr \<lparr>lines = ls, boxes = None, loglog = False, xlabel = ''Array Size'',
               ylabel = ''Number of Comparisons'', title = ''Comparison Count Analysis''\<rparr>)"

definition panel_c :: "row list \<Rightarrow> error + axes" where
  "panel_c rs =
     (case for_each
             (\<lambda>has_majority.
                let subdf = filter (\<lambda>r. HasMajority r = has_majority) rs;
                    grouped = mean_by_size (\<lambda>r. real_of_int (ArrayAccess r)) subdf
                in map_sum id (\<lambda>s. [s])
                     (plot (map fst grouped) (map snd grouped) ''o-''
                        (''Has Majority: '' @ (if has_majority then ''True'' else ''False''))))
             [True, False] of
        Inl e \<Rightarrow> Inl e
      | Inr ls \<Rightarrow>
          Inr \<lparr>lines = ls, boxes = None, loglog = False, xlabel = ''Array Size'',
               ylabel = ''Array Accesses'', title = ''Memory Access Patterns''\<rparr>)"

text \<open>
  \<^verbatim>\<open>sns.boxplot(data=subset, x='InputType', y='Time(ns)')\<close>: one box per input type,
  holding the times of its rows.
\<close>

definition boxplot :: "row list \<Rightarrow> (string \<times> real list) list" where
  "boxplot subdf =
     map (\<lambda>d. (d, map Time_ns (filter (\<lambda>r. InputType r = d) subdf)))
       (unique (map InputType subdf))"

definition fixed_size :: int where
  "fixed_size = 10000"

definition panel_d :: "row list \<Rightarrow> axes" where
  "panel_d rs =
     (let subdf = filter (\<lambda>r. ArraySize r = fixed_size) rs
      in if length subdf > 0
         then \<lparr>lines = [], boxes = Some (boxplot subdf), loglog = False,
               xlabel = ''InputType'', ylabel = ''Time(ns)'',
               title = ''Performance Distribution'' @ [CHR 0x0A] @ ''(Size = 10000)''\<rparr>
         else \<lparr>lines = [], boxes = None, loglog = False, xlabel = [], ylabel = [], title = []\<rparr>)"

definition create_performance_plots :: "dataframe \<Rightarrow> world \<Rightarrow> error + world" where
  "create_performance_plots d w =
     (case panel_a (rows d) of
        Inl e \<Rightarrow> Inl e
      | Inr a \<Rightarrow>
     (case panel_b (rows d) of
        Inl e \<Rightarrow> Inl e
      | Inr b \<Rightarrow>
     (case panel_c (rows d) of
        Inl e \<Rightarrow> Inl e
      | Inr c \<Rightarrow> Inr (savefig ''performance_analysis.png'' [a, b, c, panel_d (rows d)] w))))"

text \<open>
  \<^verbatim>\<open>create_theoretical_validation\<close>. The x-coordinates of both curves are
  \<^verbatim>\<open>subset['ArraySize'].unique()\<close>; the reference values are computed from the same
  array, the actual values are the \<^verbatim>\<open>.values\<close> of the grouped means.
\<close>

definition theoretical_n :: "row list \<Rightarrow> float64 list" where
  "theoretical_n subdf =
     map (\<lambda>n. Fin (real_of_int (int64 (n * 100)))) (unique (map ArraySize subdf))"

definition actual_times :: "row list \<Rightarrow> float64 list" where
  "actual_times subdf = map snd (mean_by_size Time_ns subdf)"

definition create_theoretical_validation :: "dataframe \<Rightarrow> world \<Rightarrow> error + world" where
  "create_theoretical_validation d w =
     (let subdf = filter (\<lambda>r. InputType r = ''RANDOM'') (rows d)
      in case plot (unique (map ArraySize subdf)) (theoretical_n subdf) ''r--''
                ''Theoretical O(n)'' of
           Inl e \<Rightarrow> Inl e
         | Inr reference \<Rightarrow>
        (case plot (unique (map ArraySize subdf)) (actual_times subdf) ''bo-''
                ''Actual Performance'' of
           Inl e \<Rightarrow> Inl e
         | Inr actual \<Rightarrow>
             Inr (savefig ''theory_vs_practice.png''
                    [\<lparr>lines = [reference, actual], boxes = None, loglog = False,
                      xlabel = ''Array Size (n)'', ylabel = ''Time (ns)'',
                      title = ''Theoretical vs Actual Performance'' @ [CHR 0x0A]
                              @ ''(Linear Complexity Validation)''\<rparr>] w)))"

text \<open>\<^verbatim>\<open>generate_statistical_summary\<close>: the values it prints, then the function.\<close>

definition time_by_size :: "row list \<Rightarrow> (int \<times> float64 list) list" where
  "time_by_size rs =
     map (\<lambda>(k, ts). (k, [mean ts, std ts, min_agg ts, max_agg ts]))
       (groupby (map ArraySize rs) (map Time_ns rs))"

definition time_by_dist :: "row list \<Rightarrow> (string \<times> float64 list) list" where
  "time_by_dist rs =
     map (\<lambda>(k, ts). (k, [mean ts, std ts])) (groupby (map InputType rs) (map Time_ns rs))"

definition correlation :: "row list \<Rightarrow> float64" where
  "correlation rs = iloc (corr [map (\<lambda>r. real_of_int (ArraySize r)) rs, map Time_ns rs]) 0 1"

definition time_per_element :: "row list \<Rightarrow> float64 list" where
  "time_per_element rs = map (\<lambda>r. true_divide (Time_ns r) (real_of_int (ArraySize r))) rs"

definition efficiency :: "row list \<Rightarrow> float64 list \<Rightarrow> (int \<times> float64) list" where
  "efficiency rs tpe = map (\<lambda>(k, vs). (k, nanmean vs)) (groupby (map ArraySize rs) tpe)"

definition round_frame :: "('k \<times> float64 list) list \<Rightarrow> ('k \<times> float64 list) list" where
  "round_frame t = map (\<lambda>(k, vs). (k, map (round_dec 2) vs)) t"

definition round_series :: "('k \<times> float64) list \<Rightarrow> ('k \<times> float64) list" where
  "round_series t = map (\<lambda>(k, v). (k, round_dec 2 v)) t"

definition generate_statistical_summary :: "dataframe \<Rightarrow> world \<Rightarrow> error + (dataframe \<times> world)" where
  "generate_statistical_summary d w =
     (let w1 = print (Print (CHR 0x0A # ''=== STATISTICAL SUMMARY ==='')) w;
          w2 = print (PrintF ''Total benchmark runs: '' (VInt (int (length (rows d))))) w1;
          w3 = print (PrintF ''Array sizes tested: ''
                        (VInts (sort (unique (map ArraySize (rows d)))))) w2;
          w4 = print (Print (CHR 0x0A # ''Average Time by Array Size:'')) w3;
          w5 = print (PrintF [] (VFrameI (round_frame (time_by_size (rows d))))) w4;
          w6 = print (Print (CHR 0x0A # ''Average Time by Input Distribution:'')) w5;
          w7 = print (PrintF [] (VFrameS (round_frame (time_by_dist (rows d))))) w6;
          w8 = print (Print (CHR 0x0A # ''Complexity Analysis (Time vs Size correlation):'')) w7;
          w9 = print (PrintF ''Correlation coefficient: ''
                        (VFloat (round_dec 4 (correlation (rows d))))) w8;
          w10 = print (Print (CHR 0x0A # ''Efficiency Metrics:'')) w9;
          d' = d\<lparr>TimePerElement := Some (time_per_element (rows d))\<rparr>;
          w11 = print (Print ''Average time per element (ns):'') w10;
          w12 = print (PrintF []
                         (VSeriesI (round_series
                            (efficiency (rows d') (the (TimePerElement d')))))) w11
      in Inr (d', w12))"

text \<open>The script's entry point; the result is the final binding of \<^verbatim>\<open>df\<close>.\<close>

definition main :: "world \<Rightarrow> error + (dataframe option \<times> world)" where
  "main w =
     (let w1 = print (Print ''Boyer-Moore Majority Vote Performance Analysis'') w;
          w2 = print (Print (replicate 50 (CHR ''=''))) w1
      in case load_and_analyze_data w2 of
           Inl e \<Rightarrow> Inl e
         | Inr (None, w3) \<Rightarrow> Inr (None, w3)
         | Inr (Some d, w3) \<Rightarrow>
        (case generate_statistical_summary d w3 of
           Inl e \<Rightarrow> Inl e
         | Inr (d', w4) \<Rightarrow>
        (case create_performance_plots d' w4 of
           Inl e \<Rightarrow> Inl e
         | Inr w5 \<Rightarrow>
        (case create_theoretical_validation d' w5 of
           Inl e \<Rightarrow> Inl e
         | Inr w6 \<Rightarrow>
             Inr (Some d',
                  print (Print (CHR 0x0A # ''Plots saved as '' @ [CHR 0x27] @ ''performance_analysis.png''
                                 @ [CHR 0x27] @ '' and '' @ [CHR 0x27] @ ''theory_vs_practice.png''
                                 @ [CHR 0x27])) w6)))))"


section \<open>The mean of TimePerElement in binary64\<close>

text \<open>
  The same computation as \<open>time_per_element\<close>, \<open>efficiency\<close> and \<open>round_series\<close> above, with
  the result of every arithmetic operation rounded to the nearest binary64 number (ties to
  even), as the program's float64 arithmetic does. Overflow and subnormal numbers are left
  out: \<open>fl64\<close> rounds to 53 significant bits at any exponent.
\<close>

text \<open>\<open>ilog2 x\<close> is the exponent of the leading bit of a positive \<open>x\<close>.\<close>

definition ilog2 :: "real \<Rightarrow> int" where
  "ilog2 x = (if 1 \<le> x then bitlen \<lfloor>x\<rfloor> - 1 else - bitlen (\<lceil>1 / x\<rceil> - 1))"

definition fl64 :: "real \<Rightarrow> real" where
  "fl64 x =
     (if x = 0 then 0
      else let q = 2 powi (ilog2 \<bar>x\<bar> - 52) in real_of_int (rint (x / q)) * q)"

text \<open>
  The group mean of pandas (\<^verbatim>\<open>group_mean\<close>) adds the values of a group in row order with
  Kahan's compensated summation and divides the sum by the count.
\<close>

fun kahan :: "real \<Rightarrow> real \<Rightarrow> real list \<Rightarrow> real" where
  "kahan sumx compensation [] = sumx"
| "kahan sumx compensation (val # vals) =
     (let y = fl64 (val - compensation);
          t = fl64 (sumx + y)
      in kahan t (fl64 (fl64 (t - sumx) - y)) vals)"

declare kahan.simps [simp del]

definition nanmean64 :: "float64 list \<Rightarrow> float64" where
  "nanmean64 vs =
     (let xs = filter (\<lambda>v. v \<noteq> NaN) vs
      in if xs = [] then NaN
         else if PInf \<in> set xs \<and> NInf \<in> set xs then NaN
         else if PInf \<in> set xs then PInf
         else if NInf \<in> set xs then NInf
         else Fin (fl64 (kahan 0 0 (map fin_val xs) / real (length xs))))"

text \<open>Both columns are converted to float64 before the division.\<close>

definition true_divide64 :: "real \<Rightarrow> real \<Rightarrow> float64" where
  "true_divide64 t n =
     (if fl64 n \<noteq> 0 then Fin (fl64 (fl64 t / fl64 n))
      else if 0 < t then PInf else if t < 0 then NInf else NaN)"

definition time_per_element64 :: "row list \<Rightarrow> float64 list" where
  "time_per_element64 rs =
     map (\<lambda>r. true_divide64 (Time_ns r) (real_of_int (ArraySize r))) rs"

definition efficiency64 :: "row list \<Rightarrow> float64 list \<Rightarrow> (int \<times> float64) list" where
  "efficiency64 rs tpe = map (\<lambda>(k, vs). (k, nanmean64 vs)) (groupby (map ArraySize rs) tpe)"

text \<open>numpy rounds to \<open>k\<close> decimals by scaling: multiply by \<open>10 ^ k\<close>, round to an integer, divide.\<close>

definition round_dec64 :: "nat \<Rightarrow> float64 \<Rightarrow> float64" where
  "round_dec64 k v =
     (case v of Fin x \<Rightarrow> Fin (fl64 (real_of_int (rint (fl64 (x * 10 ^ k))) / 10 ^ k)) | _ \<Rightarrow> v)"

definition round_series64 :: "('k \<times> float64) list \<Rightarrow> ('k \<times> float64) list" where
  "round_series64 t = map (\<lambda>(k, v). (k, round_dec64 2 v)) t"

section \<open>Auxiliary definitions\<close>

text \<open>The series that Panels A to C plot for one subset: its group means against its sizes.\<close>

definition mean_series :: "(row \<Rightarrow> real) \<Rightarrow> row list \<Rightarrow> string \<Rightarrow> series" where
  "mean_series col subdf l =
     \<lparr>xdata = map fst (mean_by_size col subdf), ydata = map snd (mean_by_size col subdf),
      fmt = ''o-'', label = l\<rparr>"

text \<open>Concrete rows, tables and worlds.\<close>

definition r1000 :: row where
  "r1000 = \<lparr>ArraySize = 1000, InputType = ''RANDOM'', HasMajority = True, Time_ns = 5000,
            Comparisons = 999, ArrayAccess = 2000\<rparr>"

definition r100 :: row where
  "r100 = \<lparr>ArraySize = 100, InputType = ''RANDOM'', HasMajority = False, Time_ns = 700,
            Comparisons = 99, ArrayAccess = 200\<rparr>"

definition r0 :: row where
  "r0 = \<lparr>ArraySize = 0, InputType = ''SORTED'', HasMajority = False, Time_ns = 40,
          Comparisons = 0, ArrayAccess = 0\<rparr>"

text \<open>Three runs at size 1000, with times 47708, 40613 and 3284 ns.\<close>

definition run_a :: row where
  "run_a = \<lparr>ArraySize = 1000, InputType = ''RANDOM'', HasMajority = True, Time_ns = 47708,
            Comparisons = 999, ArrayAccess = 2000\<rparr>"

definition run_b :: row where
  "run_b = \<lparr>ArraySize = 1000, InputType = ''RANDOM'', HasMajority = True, Time_ns = 40613,
            Comparisons = 999, ArrayAccess = 2000\<rparr>"

definition run_c :: row where
  "run_c = \<lparr>ArraySize = 1000, InputType = ''RANDOM'', HasMajority = True, Time_ns = 3284,
            Comparisons = 999, ArrayAccess = 2000\<rparr>"

definition empty_world :: world where
  "empty_world = \<lparr>fs = Map.empty, stdout = []\<rparr>"

definition csv_world :: "row list \<Rightarrow> world" where
  "csv_world rs = \<lparr>fs = [csv_file \<mapsto> Csv rs], stdout = []\<rparr>"

section \<open>Facts about the table operations\<close>

lemma set_unique [simp]: "set (unique xs) = set xs"
  by (induction xs rule: unique.induct) auto

lemma unique_Nil_iff [simp]: "unique xs = [] \<longleftrightarrow> xs = []"
  by (cases xs) simp_all

lemma distinct_unique [simp]: "distinct (unique xs)"
  by (induction xs rule: unique.induct) auto

lemma sort_unique_cong: "set xs = set ys \<Longrightarrow> sort (unique xs) = sort (unique ys)"
  by (rule sorted_distinct_set_unique) simp_all

lemma group_values:
  "map snd (filter (\<lambda>kv. fst kv = x) (zip (map k rs) (map v rs))) =
   map v (filter (\<lambda>r. k r = x) rs)"
  by (induction rs) auto

lemma groupby_columns:
  "groupby (map k rs) (map v rs) =
     map (\<lambda>x. (x, map v (filter (\<lambda>r. k r = x) rs))) (sort (unique (map k rs)))"
  by (simp add: groupby_def group_values)

lemma mean_by_size_eq:
  "mean_by_size col rs =
     map (\<lambda>n. (n, mean (map col (filter (\<lambda>r. ArraySize r = n) rs))))
       (sort (unique (map ArraySize rs)))"
  by (simp add: mean_by_size_def groupby_columns)

lemma int64_in_range: "- (2 ^ 63) \<le> x \<Longrightarrow> x < 2 ^ 63 \<Longrightarrow> int64 x = x"
  by (simp add: int64_def)

section \<open>The theoretical validator\<close>

lemma length_actual_times: "length (actual_times rs) = length (unique (map ArraySize rs))"
  by (simp add: actual_times_def mean_by_size_def groupby_def)

lemma length_theoretical_n: "length (theoretical_n rs) = length (unique (map ArraySize rs))"
  by (simp add: theoretical_n_def)

text \<open>
  Both arrays handed to \<^verbatim>\<open>plt.plot\<close> have one entry per distinct size, so neither call
  raises, and the figure is always saved.
\<close>

lemma create_theoretical_validation_eq:
  "create_theoretical_validation d w =
     Inr (savefig ''theory_vs_practice.png''
            [\<lparr>lines =
                [\<lparr>xdata = unique (map ArraySize (filter (\<lambda>r. InputType r = ''RANDOM'') (rows d))),
                  ydata = theoretical_n (filter (\<lambda>r. InputType r = ''RANDOM'') (rows d)),
                  fmt = ''r--'', label = ''Theoretical O(n)''\<rparr>,
                 \<lparr>xdata = unique (map ArraySize (filter (\<lambda>r. InputType r = ''RANDOM'') (rows d))),
                  ydata = actual_times (filter (\<lambda>r. InputType r = ''RANDOM'') (rows d)),
                  fmt = ''bo-'', label = ''Actual Performance''\<rparr>],
              boxes = None, loglog = False, xlabel = ''Array Size (n)'', ylabel = ''Time (ns)'',
              title = ''Theoretical vs Actual Performance'' @ [CHR 0x0A]
                      @ ''(Linear Complexity Validation)''\<rparr>]
            w)"
  by (simp add: create_theoretical_validation_def plot_def length_actual_times
      length_theoretical_n Let_def)

text \<open>
  The reference curve is n * 100 at each distinct size n, in the order of the x-coordinates,
  as long as the product fits int64.
\<close>

lemma theoretical_n_zip:
  assumes "\<forall>r \<in> set rs. - (2 ^ 63) \<le> ArraySize r * 100 \<and> ArraySize r * 100 < 2 ^ 63"
  shows "zip (unique (map ArraySize rs)) (theoretical_n rs) =
           map (\<lambda>n. (n, Fin (real_of_int (n * 100)))) (unique (map ArraySize rs))"
proof -
  have "int64 (n * 100) = n * 100" if "n \<in> set (unique (map ArraySize rs))" for n
    using that assms by (auto intro: int64_in_range)
  then have "theoretical_n rs = map (\<lambda>n. Fin (real_of_int (n * 100))) (unique (map ArraySize rs))"
    unfolding theoretical_n_def by (intro map_cong) simp_all
  then show ?thesis
    by (simp add: zip_map2 zip_same_conv_map)
qed

text \<open>
  When the sizes of the RANDOM rows first appear in ascending order, position and size
  agree, and every mean is plotted at its own size.
\<close>

lemma actual_times_sorted:
  assumes "sorted (unique (map ArraySize rs))"
  shows "zip (unique (map ArraySize rs)) (actual_times rs) = mean_by_size Time_ns rs"
proof -
  from assms have "sort (unique (map ArraySize rs)) = unique (map ArraySize rs)"
    by (simp add: sorted_sort_id)
  then show ?thesis
    by (simp add: actual_times_def mean_by_size_eq zip_map2 zip_same_conv_map)
qed

text \<open>
  C1. The validator plots the actual curve with \<^verbatim>\<open>subset['ArraySize'].unique()\<close> as x and
  the \<^verbatim>\<open>.values\<close> of the grouped means as y. The first is in order of first appearance,
  the second in ascending order of size. On the table whose two RANDOM rows have sizes 1000
  and then 100 (times 5000 and 700), the mean at size 100 is 700 and the mean at size 1000
  is 5000, yet the actual curve holds the points (1000, 700) and (100, 5000): each mean is
  paired with the other size. The reference curve is n * 100 at each n.
\<close>

theorem validation_pairs_means_by_position:
  "mean_by_size Time_ns [r1000, r100] = [(100, Fin 700), (1000, Fin 5000)] \<and>
   create_theoretical_validation \<lparr>rows = [r1000, r100], TimePerElement = None\<rparr> empty_world =
     Inr (savefig ''theory_vs_practice.png''
            [\<lparr>lines =
                [\<lparr>xdata = [1000, 100], ydata = [Fin 100000, Fin 10000], fmt = ''r--'',
                  label = ''Theoretical O(n)''\<rparr>,
                 \<lparr>xdata = [1000, 100], ydata = [Fin 700, Fin 5000], fmt = ''bo-'',
                  label = ''Actual Performance''\<rparr>],
              boxes = None, loglog = False, xlabel = ''Array Size (n)'', ylabel = ''Time (ns)'',
              title = ''Theoretical vs Actual Performance'' @ [CHR 0x0A]
                      @ ''(Linear Complexity Validation)''\<rparr>]
            empty_world)"
  by (simp add: create_theoretical_validation_def plot_def theoretical_n_def actual_times_def
      mean_by_size_eq r1000_def r100_def mean_def int64_def)

text \<open>
  C10. On a table with no RANDOM row the validator still returns without raising: the
  reference and the actual curve are both empty, and \<^verbatim>\<open>theory_vs_practice.png\<close> is written
  with these two empty curves.
\<close>

theorem validation_without_random_rows:
  assumes "\<forall>r \<in> set (rows d). InputType r \<noteq> ''RANDOM''"
  shows "\<exists>w'. create_theoretical_validation d w = Inr w' \<and>
           fs w' ''theory_vs_practice.png'' =
             Some (Png [\<lparr>lines =
                           [\<lparr>xdata = [], ydata = [], fmt = ''r--'', label = ''Theoretical O(n)''\<rparr>,
                            \<lparr>xdata = [], ydata = [], fmt = ''bo-'', label = ''Actual Performance''\<rparr>],
                         boxes = None, loglog = False, xlabel = ''Array Size (n)'',
                         ylabel = ''Time (ns)'',
                         title = ''Theoretical vs Actual Performance'' @ [CHR 0x0A]
                                 @ ''(Linear Complexity Validation)''\<rparr>])"
proof -
  from assms have "filter (\<lambda>r. InputType r = ''RANDOM'') (rows d) = []"
    by (simp add: filter_empty_conv)
  then show ?thesis
    by (simp add: create_theoretical_validation_eq savefig_def theoretical_n_def actual_times_def
        mean_by_size_def groupby_def)
qed

theorem validation_without_random_rows_witness:
  "InputType r0 \<noteq> ''RANDOM'' \<and>
   (\<exists>w'. create_theoretical_validation \<lparr>rows = [r0], TimePerElement = None\<rparr> empty_world = Inr w' \<and>
         fs w' ''theory_vs_practice.png'' \<noteq> None)"
  using validation_without_random_rows [of "\<lparr>rows = [r0], TimePerElement = None\<rparr>" empty_world]
  by (auto simp add: r0_def)

section \<open>The loader and the missing input file\<close>

text \<open>
  C2. When \<^verbatim>\<open>benchmark_results.csv\<close> does not exist, the loader prints one line that
  contains the file name and returns None without raising. The run then prints nothing
  further and returns: the file system is left as it was, so neither
  \<^verbatim>\<open>performance_analysis.png\<close> nor \<^verbatim>\<open>theory_vs_practice.png\<close> is created.
\<close>

theorem missing_input_stops_run:
  assumes "fs w csv_file = None"
  shows "load_and_analyze_data w =
           Inr (None, print (Print (''Error: '' @ csv_file @ '' not found. Run benchmarks first.'')) w) \<and>
         (\<exists>w'. main w = Inr (None, w') \<and> fs w' = fs w \<and>
               stdout w' =
                 stdout w @
                 [Print ''Boyer-Moore Majority Vote Performance Analysis'',
                  Print (replicate 50 (CHR ''='')),
                  Print (''Error: '' @ csv_file @ '' not found. Run benchmarks first.'')])"
  using assms by (simp add: main_def load_and_analyze_data_def print_def Let_def)

theorem missing_input_stops_run_witness:
  "fs empty_world csv_file = None \<and>
   (\<exists>w'. main empty_world = Inr (None, w') \<and>
         fs w' ''performance_analysis.png'' = None \<and> fs w' ''theory_vs_practice.png'' = None \<and>
         last (stdout w') = Print ''Error: benchmark_results.csv not found. Run benchmarks first.'')"
  using missing_input_stops_run [of empty_world] by (auto simp add: empty_world_def csv_file_def)

section \<open>The chart renderer\<close>

lemma for_each_Inr:
  "(\<And>x. x \<in> set xs \<Longrightarrow> body x = Inr (f x)) \<Longrightarrow> for_each body xs = Inr (concat (map f xs))"
  by (induction xs) auto

lemma plot_grouped:
  "plot (map fst g) (map snd g) f l =
     Inr \<lparr>xdata = map fst g, ydata = map snd g, fmt = f, label = l\<rparr>"
  by (simp add: plot_def)

lemma panel_a_Inr:
  "panel_a rs =
     Inr \<lparr>lines = map (\<lambda>t. mean_series Time_ns (filter (\<lambda>r. InputType r = t) rs) t)
                   (unique (map InputType rs)),
          boxes = None, loglog = (rs \<noteq> []), xlabel = ''Array Size'', ylabel = ''Time (ns)'',
          title = ''Time Complexity Analysis'' @ [CHR 0x0A] @ ''(Log-Log Scale)''\<rparr>"
  unfolding panel_a_def
  by (subst for_each_Inr
        [where f = "\<lambda>t. [mean_series Time_ns (filter (\<lambda>r. InputType r = t) rs) t]"])
     (simp_all add: plot_grouped mean_series_def Let_def)

lemma panel_b_Inr:
  "panel_b rs =
     Inr \<lparr>lines = concat (map (\<lambda>t. if filter (\<lambda>r. InputType r = t) rs \<noteq> []
                                  then [mean_series (\<lambda>r. real_of_int (Comparisons r))
                                          (filter (\<lambda>r. InputType r = t) rs) t]
                                  else [])
                           [''RANDOM'', ''SORTED'', ''WORST_CASE'']),
          boxes = None, loglog = False, xlabel = ''Array Size'',
          ylabel = ''Number of Comparisons'', title = ''Comparison Count Analysis''\<rparr>"
  unfolding panel_b_def
  by (subst for_each_Inr
        [where f = "\<lambda>t. if filter (\<lambda>r. InputType r = t) rs \<noteq> []
                        then [mean_series (\<lambda>r. real_of_int (Comparisons r))
                                (filter (\<lambda>r. InputType r = t) rs) t]
                        else []"])
     (simp_all add: plot_grouped mean_series_def Let_def)

lemma panel_c_Inr:
  "panel_c rs =
     Inr \<lparr>lines = map (\<lambda>b. mean_series (\<lambda>r. real_of_int (ArrayAccess r))
                              (filter (\<lambda>r. HasMajority r = b) rs)
                              (''Has Majority: '' @ (if b then ''True'' else ''False'')))
                   [True, False],
          boxes = None, loglog = False, xlabel = ''Array Size'', ylabel = ''Array Accesses'',
          title = ''Memory Access Patterns''\<rparr>"
  unfolding panel_c_def
  by (subst for_each_Inr
        [where f = "\<lambda>b. [mean_series (\<lambda>r. real_of_int (ArrayAccess r))
                           (filter (\<lambda>r. HasMajority r = b) rs)
                           (''Has Majority: '' @ (if b then ''True'' else ''False''))]"])
     (simp_all add: plot_grouped mean_series_def Let_def)

lemma create_performance_plots_Inr:
  "\<exists>a b c. panel_a (rows d) = Inr a \<and> panel_b (rows d) = Inr b \<and> panel_c (rows d) = Inr c \<and>
     create_performance_plots d w =
       Inr (savefig ''performance_analysis.png'' [a, b, c, panel_d (rows d)] w)"
  by (simp add: create_performance_plots_def panel_a_Inr panel_b_Inr panel_c_Inr)

text \<open>Panel B holds one series for each of the three fixed input types that has rows.\<close>

lemma panel_b_labels:
  "panel_b rs = Inr b \<Longrightarrow>
   map label (lines b) =
     filter (\<lambda>t. \<exists>r \<in> set rs. InputType r = t) [''RANDOM'', ''SORTED'', ''WORST_CASE'']"
  by (auto simp add: panel_b_Inr mean_series_def filter_empty_conv)

text \<open>
  C5. The renderer never raises and saves its four panels. An input type of the fixed set
  RANDOM, SORTED, WORST_CASE without rows has no series in Panel B, and when no row has
  ArraySize 10000, Panel D has neither lines nor a box plot.
\<close>

theorem empty_subsets_are_skipped:
  "\<exists>a b c. create_performance_plots d w =
              Inr (savefig ''performance_analysis.png'' [a, b, c, panel_d (rows d)] w) \<and>
     panel_b (rows d) = Inr b \<and>
     (\<forall>t \<in> {''RANDOM'', ''SORTED'', ''WORST_CASE''}.
        (\<forall>r \<in> set (rows d). InputType r \<noteq> t) \<longrightarrow> (\<forall>s \<in> set (lines b). label s \<noteq> t)) \<and>
     ((\<forall>r \<in> set (rows d). ArraySize r \<noteq> 10000) \<longrightarrow>
        lines (panel_d (rows d)) = [] \<and> boxes (panel_d (rows d)) = None)"
proof -
  obtain a b c where abc: "panel_a (rows d) = Inr a" "panel_b (rows d) = Inr b"
      "panel_c (rows d) = Inr c"
      "create_performance_plots d w =
         Inr (savefig ''performance_analysis.png'' [a, b, c, panel_d (rows d)] w)"
    using create_performance_plots_Inr by blast
  have labels: "set (map label (lines b)) \<subseteq> {t. \<exists>r \<in> set (rows d). InputType r = t}"
    using panel_b_labels [OF abc(2)] by auto
  have skip: "\<forall>t. (\<forall>r \<in> set (rows d). InputType r \<noteq> t) \<longrightarrow> (\<forall>s \<in> set (lines b). label s \<noteq> t)"
    using labels by auto
  have no_boxes: "(\<forall>r \<in> set (rows d). ArraySize r \<noteq> 10000) \<longrightarrow>
        lines (panel_d (rows d)) = [] \<and> boxes (panel_d (rows d)) = None"
    by (simp add: panel_d_def fixed_size_def filter_empty_conv Let_def)
  from abc skip no_boxes show ?thesis by blast
qed

theorem empty_subsets_are_skipped_witness:
  "InputType r1000 \<noteq> ''SORTED'' \<and> InputType r100 \<noteq> ''SORTED'' \<and>
   ArraySize r1000 \<noteq> 10000 \<and> ArraySize r100 \<noteq> 10000 \<and>
   (\<exists>a b c. create_performance_plots \<lparr>rows = [r1000, r100], TimePerElement = None\<rparr> empty_world =
              Inr (savefig ''performance_analysis.png'' [a, b, c, panel_d [r1000, r100]] empty_world) \<and>
      (\<forall>s \<in> set (lines b). label s \<noteq> ''SORTED'') \<and>
      boxes (panel_d [r1000, r100]) = None)"
  using empty_subsets_are_skipped [of "\<lparr>rows = [r1000, r100], TimePerElement = None\<rparr>" empty_world]
  by (simp add: r1000_def r100_def) blast

section \<open>The statistical summarizer\<close>

text \<open>The summarizer never raises; it assigns the derived column and touches no file.\<close>

lemma generate_statistical_summary_Inr:
  "\<exists>w'. generate_statistical_summary d w =
          Inr (d\<lparr>TimePerElement := Some (time_per_element (rows d))\<rparr>, w') \<and> fs w' = fs w"
  by (simp add: generate_statistical_summary_def Let_def print_def)

lemma time_per_element_nth:
  "i < length rs \<Longrightarrow>
   time_per_element rs ! i = true_divide (Time_ns (rs ! i)) (real_of_int (ArraySize (rs ! i)))"
  by (simp add: time_per_element_def)

text \<open>
  C7. The summarizer prints, right after its heading, the record count, which is the number
  of rows of the table, and then the distinct ArraySize values in ascending order. This
  holds for every table, the non-empty ones included.
\<close>

theorem summary_count_then_sorted_sizes:
  "\<exists>d' w' sizes rest.
     generate_statistical_summary d w = Inr (d', w') \<and>
     stdout w' =
       stdout w @
       [Print (CHR 0x0A # ''=== STATISTICAL SUMMARY ===''),
        PrintF ''Total benchmark runs: '' (VInt (int (length (rows d)))),
        PrintF ''Array sizes tested: '' (VInts sizes)] @ rest \<and>
     sorted sizes \<and> distinct sizes \<and> set sizes = ArraySize ` set (rows d)"
  by (simp add: generate_statistical_summary_def Let_def print_def)

subsection \<open>The derived column\<close>






subsection \<open>The whole run on a table\<close>

lemma main_loaded:
  assumes "fs w csv_file = Some (Csv rs)"
  shows "\<exists>w'. main w = Inr (Some \<lparr>rows = rs, TimePerElement = Some (time_per_element rs)\<rparr>, w')"
proof -
  let ?w2 = "print (Print (replicate 50 (CHR ''='')))
               (print (Print ''Boyer-Moore Majority Vote Performance Analysis'') w)"
  let ?d = "\<lparr>rows = rs, TimePerElement = None\<rparr>"
  let ?d' = "\<lparr>rows = rs, TimePerElement = Some (time_per_element rs)\<rparr>"
  have "fs ?w2 csv_file = Some (Csv rs)"
    using assms by (simp add: print_def)
  then obtain w3 where load: "load_and_analyze_data ?w2 = Inr (Some ?d, w3)"
    by (simp add: load_and_analyze_data_def Let_def)
  obtain w4 where gss: "generate_statistical_summary ?d w3 = Inr (?d', w4)"
    using generate_statistical_summary_Inr [of ?d w3] by auto
  obtain w5 where cpp: "create_performance_plots ?d' w4 = Inr w5"
    using create_performance_plots_Inr by blast
  obtain w6 where ctv: "create_theoretical_validation ?d' w5 = Inr w6"
    by (simp add: create_theoretical_validation_eq)
  show ?thesis
    by (simp add: main_def Let_def load gss cpp ctv)
qed

text \<open>
  C9. The division that computes TimePerElement is not guarded. For a row with
  ArraySize 0 its entry is not a finite number: it is plus infinity for a positive time,
  minus infinity for a negative one and NaN for time 0. Every other row gets its quotient.
  The summarizer returns without raising, and so does the whole run on such a table.
\<close>

theorem zero_size_gives_non_finite:
  "\<exists>w' tpe.
     generate_statistical_summary d w = Inr (d\<lparr>TimePerElement := Some tpe\<rparr>, w') \<and>
     length tpe = length (rows d) \<and>
     (\<forall>i < length (rows d).
        (ArraySize (rows d ! i) = 0 \<longrightarrow>
           tpe ! i = (if 0 < Time_ns (rows d ! i) then PInf
                      else if Time_ns (rows d ! i) < 0 then NInf else NaN)) \<and>
        (ArraySize (rows d ! i) \<noteq> 0 \<longrightarrow>
           tpe ! i = Fin (Time_ns (rows d ! i) / real_of_int (ArraySize (rows d ! i))))) \<and>
     (fs w csv_file = Some (Csv (rows d)) \<longrightarrow> (\<exists>res. main w = Inr res))"
proof -
  obtain w' where gss: "generate_statistical_summary d w =
      Inr (d\<lparr>TimePerElement := Some (time_per_element (rows d))\<rparr>, w')"
    using generate_statistical_summary_Inr by blast
  have len: "length (time_per_element (rows d)) = length (rows d)"
    by (simp add: time_per_element_def)
  have entries: "\<forall>i < length (rows d).
        (ArraySize (rows d ! i) = 0 \<longrightarrow>
           time_per_element (rows d) ! i = (if 0 < Time_ns (rows d ! i) then PInf
                      else if Time_ns (rows d ! i) < 0 then NInf else NaN)) \<and>
        (ArraySize (rows d ! i) \<noteq> 0 \<longrightarrow>
           time_per_element (rows d) ! i =
             Fin (Time_ns (rows d ! i) / real_of_int (ArraySize (rows d ! i))))"
    by (simp add: time_per_element_nth true_divide_def)
  have run: "fs w csv_file = Some (Csv (rows d)) \<longrightarrow> (\<exists>res. main w = Inr res)"
    using main_loaded by blast
  from gss len entries run show ?thesis by blast
qed

theorem zero_size_gives_non_finite_witness:
  "ArraySize ([r0, r100] ! 0) = 0 \<and> ArraySize ([r0, r100] ! 1) \<noteq> 0 \<and>
   fs (csv_world [r0, r100]) csv_file = Some (Csv [r0, r100]) \<and>
   (\<exists>w' tpe.
      generate_statistical_summary \<lparr>rows = [r0, r100], TimePerElement = None\<rparr> (csv_world [r0, r100]) =
        Inr (\<lparr>rows = [r0, r100], TimePerElement = Some tpe\<rparr>, w') \<and>
      tpe ! 0 = PInf \<and> tpe ! 1 = Fin 7) \<and>
   (\<exists>res. main (csv_world [r0, r100]) = Inr res)"
proof -
  let ?d = "\<lparr>rows = [r0, r100], TimePerElement = None\<rparr>"
  obtain w' tpe where h:
    "generate_statistical_summary ?d (csv_world [r0, r100]) = Inr (?d\<lparr>TimePerElement := Some tpe\<rparr>, w')"
    "\<forall>i < length (rows ?d).
        (ArraySize (rows ?d ! i) = 0 \<longrightarrow>
           tpe ! i = (if 0 < Time_ns (rows ?d ! i) then PInf
                      else if Time_ns (rows ?d ! i) < 0 then NInf else NaN)) \<and>
        (ArraySize (rows ?d ! i) \<noteq> 0 \<longrightarrow>
           tpe ! i = Fin (Time_ns (rows ?d ! i) / real_of_int (ArraySize (rows ?d ! i))))"
    "fs (csv_world [r0, r100]) csv_file = Some (Csv (rows ?d))
       \<longrightarrow> (\<exists>res. main (csv_world [r0, r100]) = Inr res)"
    using zero_size_gives_non_finite [of ?d "csv_world [r0, r100]"] by blast
  from h(2) have "tpe ! 0 = PInf" "tpe ! 1 = Fin 7"
    by (simp_all add: r0_def r100_def)
  moreover from h(3) have "\<exists>res. main (csv_world [r0, r100]) = Inr res"
    by (simp add: csv_world_def)
  ultimately show ?thesis
    using h(1) by (simp add: r0_def r100_def csv_world_def)
qed

text \<open>
  C6. When the input file holds a table, the loader returns exactly its rows with no derived
  column, and the run ends with \<^verbatim>\<open>df\<close> bound to the same rows, in the same order, plus the
  column TimePerElement. The summarizer is the only function that returns a changed table;
  the two plotting functions read theirs and return only the world.
\<close>

theorem run_only_adds_derived_column:
  assumes "fs w csv_file = Some (Csv rs)"
  shows "(\<exists>w1. load_and_analyze_data w = Inr (Some \<lparr>rows = rs, TimePerElement = None\<rparr>, w1)) \<and>
         (\<exists>w' tpe. main w = Inr (Some \<lparr>rows = rs, TimePerElement = Some tpe\<rparr>, w'))"
proof
  show "\<exists>w1. load_and_analyze_data w = Inr (Some \<lparr>rows = rs, TimePerElement = None\<rparr>, w1)"
    using assms by (simp add: load_and_analyze_data_def Let_def)
  show "\<exists>w' tpe. main w = Inr (Some \<lparr>rows = rs, TimePerElement = Some tpe\<rparr>, w')"
    using main_loaded [OF assms] by blast
qed

theorem run_only_adds_derived_column_witness:
  "fs (csv_world [r1000, r100]) csv_file = Some (Csv [r1000, r100]) \<and>
   (\<exists>w' tpe. main (csv_world [r1000, r100]) =
              Inr (Some \<lparr>rows = [r1000, r100], TimePerElement = Some tpe\<rparr>, w'))"
  using run_only_adds_derived_column [of "csv_world [r1000, r100]" "[r1000, r100]"]
  by (simp add: csv_world_def)

section \<open>Symmetry and order-independence of the summary\<close>

lemma pearson_commute: "pearson xs ys = pearson ys xs"
proof -
  have "zip xs ys = map (\<lambda>(y, x). (x, y)) (zip ys xs)"
    by (rule zip_commute)
  then have "sum_list (map (\<lambda>(x, y). (x - a) * (y - b)) (zip xs ys)) =
             sum_list (map (\<lambda>(y, x). (y - b) * (x - a)) (zip ys xs))" for a b :: real
    by (simp add: case_prod_unfold comp_def mult.commute)
  then show ?thesis
    by (simp add: pearson_def Let_def mult.commute)
qed

text \<open>
  C8. The coefficient the summarizer prints is entry (0, 1) of the correlation matrix of the
  columns ArraySize and Time(ns). It equals entry (1, 0): the correlation of ArraySize with
  Time(ns) is the correlation of Time(ns) with ArraySize.
\<close>

theorem correlation_symmetric:
  "correlation rs = iloc (corr [map (\<lambda>r. real_of_int (ArraySize r)) rs, map Time_ns rs]) 1 0 \<and>
   correlation rs = pearson (map (\<lambda>r. real_of_int (ArraySize r)) rs) (map Time_ns rs) \<and>
   pearson (map (\<lambda>r. real_of_int (ArraySize r)) rs) (map Time_ns rs) =
     pearson (map Time_ns rs) (map (\<lambda>r. real_of_int (ArraySize r)) rs)"
  using pearson_commute [of "map (\<lambda>r. real_of_int (ArraySize r)) rs" "map Time_ns rs"]
  by (simp add: correlation_def corr_def iloc_def)

subsection \<open>Aggregates depend on the multiset of values only\<close>

lemma sum_list_map_perm:
  fixes g :: "'a \<Rightarrow> real"
  shows "mset xs = mset ys \<Longrightarrow> sum_list (map g xs) = sum_list (map g ys)"
  by (metis mset_map sum_mset_sum_list)

lemma mean_perm:
  assumes "mset xs = mset ys"
  shows "mean xs = mean ys"
proof -
  from assms have "sum_list xs = sum_list ys" "length xs = length ys"
    by (metis sum_mset_sum_list, metis mset_eq_length)
  moreover from assms have "xs = [] \<longleftrightarrow> ys = []"
    by (metis mset_zero_iff)
  ultimately show ?thesis by (simp add: mean_def)
qed

lemma std_perm:
  assumes "mset xs = mset ys"
  shows "std xs = std ys"
proof -
  from assms have "sum_list xs = sum_list ys" "length xs = length ys"
    by (metis sum_mset_sum_list, metis mset_eq_length)
  then show ?thesis
    using sum_list_map_perm [OF assms] by (simp add: std_def Let_def)
qed

lemma min_agg_Min: "min_agg xs = (if xs = [] then NaN else Fin (Min (set xs)))"
  by (cases xs) (simp_all add: min_agg_def flip: Min.set_eq_fold)

lemma max_agg_Max: "max_agg xs = (if xs = [] then NaN else Fin (Max (set xs)))"
  by (cases xs) (simp_all add: max_agg_def flip: Max.set_eq_fold)

lemma min_agg_perm: "mset xs = mset ys \<Longrightarrow> min_agg xs = min_agg ys"
  by (metis min_agg_Min mset_eq_setD mset_zero_iff)

lemma max_agg_perm: "mset xs = mset ys \<Longrightarrow> max_agg xs = max_agg ys"
  by (metis max_agg_Max mset_eq_setD mset_zero_iff)

lemma nanmean_perm:
  assumes "mset xs = mset ys"
  shows "nanmean xs = nanmean ys"
proof -
  let ?f = "filter (\<lambda>v. v \<noteq> NaN)"
  from assms have m: "mset (?f xs) = mset (?f ys)"
    by (metis mset_filter)
  then have "set (?f xs) = set (?f ys)" "length (?f xs) = length (?f ys)"
    "sum_list (map fin_val (?f xs)) = sum_list (map fin_val (?f ys))"
    "?f xs = [] \<longleftrightarrow> ?f ys = []"
    by (metis mset_eq_setD, metis mset_eq_length, rule sum_list_map_perm, metis mset_zero_iff)
  then show ?thesis
    unfolding nanmean_def Let_def by presburger
qed

subsection \<open>Groups of a permuted table\<close>

lemma group_perm:
  "mset rs' = mset rs \<Longrightarrow>
   mset (map v (filter (\<lambda>r. k r = x) rs')) = mset (map v (filter (\<lambda>r. k r = x) rs))"
  by (metis mset_filter mset_map)

lemma keys_perm:
  "mset rs' = mset rs \<Longrightarrow> sort (unique (map k rs')) = sort (unique (map k rs))"
  by (rule sort_unique_cong) (metis mset_eq_setD set_map)

lemma time_by_size_perm:
  assumes "mset rs' = mset rs"
  shows "time_by_size rs' = time_by_size rs"
  by (simp add: time_by_size_def groupby_columns keys_perm [OF assms]
      mean_perm [OF group_perm [OF assms]] std_perm [OF group_perm [OF assms]]
      min_agg_perm [OF group_perm [OF assms]] max_agg_perm [OF group_perm [OF assms]])

lemma time_by_dist_perm:
  assumes "mset rs' = mset rs"
  shows "time_by_dist rs' = time_by_dist rs"
  by (simp add: time_by_dist_def groupby_columns keys_perm [OF assms]
      mean_perm [OF group_perm [OF assms]] std_perm [OF group_perm [OF assms]])

lemma efficiency_perm:
  assumes "mset rs' = mset rs"
  shows "efficiency rs' (time_per_element rs') = efficiency rs (time_per_element rs)"
  by (simp add: efficiency_def time_per_element_def groupby_columns keys_perm [OF assms]
      nanmean_perm [OF group_perm [OF assms]])

lemma pearson_perm:
  assumes "mset rs' = mset rs"
  shows "pearson (map f rs') (map g rs') = pearson (map f rs) (map g rs)"
proof -
  have z: "zip (map f xs) (map g xs) = map (\<lambda>r. (f r, g r)) xs" for xs
    by (induction xs) simp_all
  have s: "sum_list (map h rs') = sum_list (map h rs)" for h :: "'a \<Rightarrow> real"
    by (rule sum_list_map_perm [OF assms])
  have l: "length rs' = length rs"
    using assms by (rule mset_eq_length)
  show ?thesis
    unfolding pearson_def by (simp add: z l s comp_def Let_def)
qed

lemma correlation_perm:
  assumes "mset rs' = mset rs"
  shows "correlation rs' = correlation rs"
  by (simp add: correlation_def corr_def iloc_def pearson_perm [OF assms])

text \<open>
  In the binary64 version of the mean of TimePerElement, the groups and the values of each
  group are those of the permuted table as well; only the order of the values differs.
\<close>

lemma efficiency64_keys_perm:
  assumes "mset rs' = mset rs"
  shows "map fst (efficiency64 rs' (time_per_element64 rs')) =
         map fst (efficiency64 rs (time_per_element64 rs))"
  by (simp add: efficiency64_def time_per_element64_def groupby_columns comp_def
      keys_perm [OF assms])

lemma time_per_element64_group_perm:
  assumes "mset rs' = mset rs"
  shows "mset (map snd (filter (\<lambda>kv. fst kv = n) (zip (map ArraySize rs') (time_per_element64 rs')))) =
         mset (map snd (filter (\<lambda>kv. fst kv = n) (zip (map ArraySize rs) (time_per_element64 rs))))"
  unfolding time_per_element64_def group_values by (rule group_perm [OF assms])

text \<open>
  C4, as amended. Let the rows of one table be a permutation of the rows of another. Then
  the summarizer forms the same groups in the same order and takes every aggregate over the
  same multiset of values. The record count, the sorted sizes and the per-ArraySize min and
  max of Time(ns) are identical. The per-ArraySize and per-InputType mean and std, the
  correlation coefficient and the per-ArraySize mean of TimePerElement are identical when
  they are evaluated in exact arithmetic, and so are the lines printed from them. (In
  float64, where the values of a group are added in row order, they need not be: see the
  next subsection.)
\<close>

theorem summary_order_independent_in_exact_arithmetic:
  assumes "mset (rows d') = mset (rows d)"
  shows "time_by_size (rows d') = time_by_size (rows d) \<and>
         time_by_dist (rows d') = time_by_dist (rows d) \<and>
         correlation (rows d') = correlation (rows d) \<and>
         efficiency (rows d') (time_per_element (rows d')) =
           efficiency (rows d) (time_per_element (rows d)) \<and>
         (\<exists>e e' w1. generate_statistical_summary d w = Inr (e, w1) \<and>
                     generate_statistical_summary d' w = Inr (e', w1)) \<and>
         map fst (efficiency64 (rows d') (time_per_element64 (rows d'))) =
           map fst (efficiency64 (rows d) (time_per_element64 (rows d))) \<and>
         mset (map snd (filter (\<lambda>kv. fst kv = n)
                 (zip (map ArraySize (rows d')) (time_per_element64 (rows d'))))) =
           mset (map snd (filter (\<lambda>kv. fst kv = n)
                   (zip (map ArraySize (rows d)) (time_per_element64 (rows d)))))"
proof -
  have "length (rows d') = length (rows d)"
    using assms by (rule mset_eq_length)
  then have exact: "time_by_size (rows d') = time_by_size (rows d) \<and>
         time_by_dist (rows d') = time_by_dist (rows d) \<and>
         correlation (rows d') = correlation (rows d) \<and>
         efficiency (rows d') (time_per_element (rows d')) =
           efficiency (rows d) (time_per_element (rows d)) \<and>
         (\<exists>e e' w1. generate_statistical_summary d w = Inr (e, w1) \<and>
                     generate_statistical_summary d' w = Inr (e', w1))"
    by (simp add: generate_statistical_summary_def Let_def time_by_size_perm [OF assms]
        time_by_dist_perm [OF assms] correlation_perm [OF assms] efficiency_perm [OF assms]
        keys_perm [OF assms])
  with efficiency64_keys_perm [OF assms] time_per_element64_group_perm [OF assms]
  show ?thesis
    by blast
qed

theorem summary_order_independent_in_exact_arithmetic_witness:
  "mset (rows \<lparr>rows = [r100, r1000], TimePerElement = None\<rparr>) =
     mset (rows \<lparr>rows = [r1000, r100], TimePerElement = None\<rparr>) \<and>
   time_by_size [r100, r1000] = time_by_size [r1000, r100] \<and>
   (\<exists>e e' w1.
      generate_statistical_summary \<lparr>rows = [r1000, r100], TimePerElement = None\<rparr> empty_world =
        Inr (e, w1) \<and>
      generate_statistical_summary \<lparr>rows = [r100, r1000], TimePerElement = None\<rparr> empty_world =
        Inr (e', w1))"
  using summary_order_independent_in_exact_arithmetic
      [of "\<lparr>rows = [r100, r1000], TimePerElement = None\<rparr>"
          "\<lparr>rows = [r1000, r100], TimePerElement = None\<rparr>" empty_world]
  by simp

subsection \<open>Row order and the float64 mean\<close>

text \<open>Evaluating \<open>fl64\<close> at a rational number.\<close>

lemma bitlen_numeral_eval:
  "bitlen (numeral (Num.Bit0 n)) = bitlen (numeral n) + 1"
  "bitlen (numeral (Num.Bit1 n)) = bitlen (numeral n) + 1"
  "bitlen 1 = 1"
  by (subst compute_bitlen; simp)+

lemmas fl64_eval = fl64_def ilog2_def bitlen_numeral_eval rint_def Let_def

lemma td_a: "true_divide64 47708 1000 = Fin (1678576023613997 / 2 ^ 45)"
  by (simp add: true_divide64_def fl64_eval)

lemma td_b: "true_divide64 40613 1000 = Fin (714471451821867 / 2 ^ 44)"
  by (simp add: true_divide64_def fl64_eval)

lemma td_c: "true_divide64 3284 1000 = Fin (3697455294071177 / 2 ^ 50)"
  by (simp add: true_divide64_def fl64_eval)

lemma kahan_abc:
  "kahan 0 0 [1678576023613997 / 2 ^ 45, 714471451821867 / 2 ^ 44, 3697455294071177 / 2 ^ 50] =
     6446128810394911 / 2 ^ 46"
proof -
  have e1: "fl64 ((1678576023613997 / 2 ^ 45) - 0) = 1678576023613997 / 2 ^ 45"
    by (simp add: fl64_eval)
  have e2: "fl64 (0 + (1678576023613997 / 2 ^ 45)) = 1678576023613997 / 2 ^ 45"
    by (simp add: fl64_eval)
  have e3: "fl64 ((1678576023613997 / 2 ^ 45) - (1678576023613997 / 2 ^ 45)) = 0"
    by (simp add: fl64_eval)
  have e4: "fl64 ((714471451821867 / 2 ^ 44) - 0) = 714471451821867 / 2 ^ 44"
    by (simp add: fl64_eval)
  have e5: "fl64 ((1678576023613997 / 2 ^ 45) + (714471451821867 / 2 ^ 44)) = 3107518927257731 / 2 ^ 45"
    by (simp add: fl64_eval)
  have e6: "fl64 ((3107518927257731 / 2 ^ 45) - (1678576023613997 / 2 ^ 45)) = 714471451821867 / 2 ^ 44"
    by (simp add: fl64_eval)
  have e7: "fl64 ((714471451821867 / 2 ^ 44) - (714471451821867 / 2 ^ 44)) = 0"
    by (simp add: fl64_eval)
  have e8: "fl64 ((3697455294071177 / 2 ^ 50) - 0) = 3697455294071177 / 2 ^ 50"
    by (simp add: fl64_eval)
  have e9: "fl64 ((3107518927257731 / 2 ^ 45) + (3697455294071177 / 2 ^ 50)) = 6446128810394911 / 2 ^ 46"
    by (simp add: fl64_eval)
  have e10: "fl64 ((6446128810394911 / 2 ^ 46) - (3107518927257731 / 2 ^ 45)) = 231090955879449 / 2 ^ 46"
    by (simp add: fl64_eval)
  have e11: "fl64 ((231090955879449 / 2 ^ 46) - (3697455294071177 / 2 ^ 50)) = 7 / 2 ^ 50"
    by (simp add: fl64_eval)
  show ?thesis
    by (simp only: kahan.simps Let_def e1 e2 e3 e4 e5 e6 e7 e8 e9 e10 e11)
qed

lemma kahan_acb:
  "kahan 0 0 [1678576023613997 / 2 ^ 45, 3697455294071177 / 2 ^ 50, 714471451821867 / 2 ^ 44] =
     3223064405197455 / 2 ^ 45"
proof -
  have e1: "fl64 ((1678576023613997 / 2 ^ 45) - 0) = 1678576023613997 / 2 ^ 45"
    by (simp add: fl64_eval)
  have e2: "fl64 (0 + (1678576023613997 / 2 ^ 45)) = 1678576023613997 / 2 ^ 45"
    by (simp add: fl64_eval)
  have e3: "fl64 ((1678576023613997 / 2 ^ 45) - (1678576023613997 / 2 ^ 45)) = 0"
    by (simp add: fl64_eval)
  have e4: "fl64 ((3697455294071177 / 2 ^ 50) - 0) = 3697455294071177 / 2 ^ 50"
    by (simp add: fl64_eval)
  have e5: "fl64 ((1678576023613997 / 2 ^ 45) + (3697455294071177 / 2 ^ 50)) = 7176486006214885 / 2 ^ 47"
    by (simp add: fl64_eval)
  have e6: "fl64 ((7176486006214885 / 2 ^ 47) - (1678576023613997 / 2 ^ 45)) = 462181911758897 / 2 ^ 47"
    by (simp add: fl64_eval)
  have e7: "fl64 ((462181911758897 / 2 ^ 47) - (3697455294071177 / 2 ^ 50)) = - (1 / 2 ^ 50)"
    by (simp add: fl64_eval)
  have e8: "fl64 ((714471451821867 / 2 ^ 44) - (- (1 / 2 ^ 50))) = 714471451821867 / 2 ^ 44"
    by (simp add: fl64_eval)
  have e9: "fl64 ((7176486006214885 / 2 ^ 47) + (714471451821867 / 2 ^ 44)) = 3223064405197455 / 2 ^ 45"
    by (simp add: fl64_eval)
  have e10: "fl64 ((3223064405197455 / 2 ^ 45) - (7176486006214885 / 2 ^ 47)) = 5715771614574935 / 2 ^ 47"
    by (simp add: fl64_eval)
  have e11: "fl64 ((5715771614574935 / 2 ^ 47) - (714471451821867 / 2 ^ 44)) = - (1 / 2 ^ 47)"
    by (simp add: fl64_eval)
  show ?thesis
    by (simp only: kahan.simps Let_def e1 e2 e3 e4 e5 e6 e7 e8 e9 e10 e11)
qed



lemma nanmean64_finite:
  assumes "xs \<noteq> []"
  shows "nanmean64 (map Fin xs) = Fin (fl64 (kahan 0 0 xs / real (length xs)))"
proof -
  have "filter (\<lambda>v. v \<noteq> NaN) (map Fin xs) = map Fin xs"
    by (induction xs) simp_all
  moreover have "map fin_val (map Fin xs) = xs"
    by (induction xs) simp_all
  ultimately show ?thesis
    using assms by (auto simp add: nanmean64_def Let_def)
qed

lemma one_group: "groupby [1000, 1000, 1000] [x, y, z] = [(1000 :: int, [x, y, z])]"
  by (simp add: groupby_def)

lemma mean_abc:
  "nanmean64 [Fin (1678576023613997 / 2 ^ 45), Fin (714471451821867 / 2 ^ 44), Fin (3697455294071177 / 2 ^ 50)] =
     Fin (8594838413859881 / 2 ^ 48)"
proof -
  have "nanmean64 (map Fin [1678576023613997 / 2 ^ 45, 714471451821867 / 2 ^ 44, 3697455294071177 / 2 ^ 50]) =
        Fin (fl64 (kahan 0 0 [1678576023613997 / 2 ^ 45, 714471451821867 / 2 ^ 44, 3697455294071177 / 2 ^ 50] / real (length ([1678576023613997 / 2 ^ 45, 714471451821867 / 2 ^ 44, 3697455294071177 / 2 ^ 50] :: real list))))"
    by (rule nanmean64_finite) simp
  also have "\<dots> = Fin (fl64 ((6446128810394911 / 2 ^ 46) / 3))"
    unfolding kahan_abc by simp
  also have "fl64 ((6446128810394911 / 2 ^ 46) / 3) = 8594838413859881 / 2 ^ 48"
    by (simp add: fl64_eval)
  finally show ?thesis
    by simp
qed

lemma round_abc:
  "round_dec64 2 (Fin (8594838413859881 / 2 ^ 48)) = Fin (fl64 (3054 / 100))"
proof -
  have x: "fl64 ((8594838413859881 / 2 ^ 48) * 10 ^ 2) = 6107 / 2 ^ 1"
    by (simp add: fl64_eval)
  have r: "rint (6107 / 2 ^ 1) = 3054"
    by (simp add: rint_def)
  show ?thesis
    unfolding round_dec64_def float64.case x r by simp
qed

lemma printed_abc:
  "round_series64 (efficiency64 [run_a, run_b, run_c] (time_per_element64 [run_a, run_b, run_c])) =
     [(1000, Fin (fl64 (3054 / 100)))]"
proof -
  have tpe: "time_per_element64 [run_a, run_b, run_c] =
      [Fin (1678576023613997 / 2 ^ 45), Fin (714471451821867 / 2 ^ 44), Fin (3697455294071177 / 2 ^ 50)]"
    by (simp add: time_per_element64_def run_a_def run_b_def run_c_def td_a td_b td_c)
  have keys: "map ArraySize [run_a, run_b, run_c] = [1000, 1000, 1000]"
    by (simp add: run_a_def run_b_def run_c_def)
  have eff: "efficiency64 [run_a, run_b, run_c] (time_per_element64 [run_a, run_b, run_c]) =
        [(1000, nanmean64 [Fin (1678576023613997 / 2 ^ 45), Fin (714471451821867 / 2 ^ 44), Fin (3697455294071177 / 2 ^ 50)])]"
    unfolding efficiency64_def tpe keys one_group by simp
  show ?thesis
    by (simp only: eff round_series64_def list.map prod.case mean_abc round_abc)
qed

lemma mean_acb:
  "nanmean64 [Fin (1678576023613997 / 2 ^ 45), Fin (3697455294071177 / 2 ^ 50), Fin (714471451821867 / 2 ^ 44)] =
     Fin (1074354801732485 / 2 ^ 45)"
proof -
  have "nanmean64 (map Fin [1678576023613997 / 2 ^ 45, 3697455294071177 / 2 ^ 50, 714471451821867 / 2 ^ 44]) =
        Fin (fl64 (kahan 0 0 [1678576023613997 / 2 ^ 45, 3697455294071177 / 2 ^ 50, 714471451821867 / 2 ^ 44] / real (length ([1678576023613997 / 2 ^ 45, 3697455294071177 / 2 ^ 50, 714471451821867 / 2 ^ 44] :: real list))))"
    by (rule nanmean64_finite) simp
  also have "\<dots> = Fin (fl64 ((3223064405197455 / 2 ^ 45) / 3))"
    unfolding kahan_acb by simp
  also have "fl64 ((3223064405197455 / 2 ^ 45) / 3) = 1074354801732485 / 2 ^ 45"
    by (simp add: fl64_eval)
  finally show ?thesis
    by simp
qed

lemma round_acb:
  "round_dec64 2 (Fin (1074354801732485 / 2 ^ 45)) = Fin (fl64 (3053 / 100))"
proof -
  have x: "fl64 ((1074354801732485 / 2 ^ 45) * 10 ^ 2) = 6714717510828031 / 2 ^ 41"
    by (simp add: fl64_eval)
  have r: "rint (6714717510828031 / 2 ^ 41) = 3053"
    by (simp add: rint_def)
  show ?thesis
    unfolding round_dec64_def float64.case x r by simp
qed

lemma printed_acb:
  "round_series64 (efficiency64 [run_a, run_c, run_b] (time_per_element64 [run_a, run_c, run_b])) =
     [(1000, Fin (fl64 (3053 / 100)))]"
proof -
  have tpe: "time_per_element64 [run_a, run_c, run_b] =
      [Fin (1678576023613997 / 2 ^ 45), Fin (3697455294071177 / 2 ^ 50), Fin (714471451821867 / 2 ^ 44)]"
    by (simp add: time_per_element64_def run_a_def run_b_def run_c_def td_a td_b td_c)
  have keys: "map ArraySize [run_a, run_c, run_b] = [1000, 1000, 1000]"
    by (simp add: run_a_def run_b_def run_c_def)
  have eff: "efficiency64 [run_a, run_c, run_b] (time_per_element64 [run_a, run_c, run_b]) =
        [(1000, nanmean64 [Fin (1678576023613997 / 2 ^ 45), Fin (3697455294071177 / 2 ^ 50), Fin (714471451821867 / 2 ^ 44)])]"
    unfolding efficiency64_def tpe keys one_group by simp
  show ?thesis
    by (simp only: eff round_series64_def list.map prod.case mean_acb round_acb)
qed

text \<open>
  C4, as stated. The table with the three runs of size 1000 in the order 47708, 40613,
  3284 and the table with the same rows in the order 47708, 3284, 40613 are permutations
  of each other. The exact mean of TimePerElement is 30.535 for both. In float64 the first
  order adds up to 91.605 and prints the mean 30.54, the second adds up to
  91.60499999999999 and prints 30.53: the per-ArraySize mean of TimePerElement that the
  summarizer prints is not the same for the two tables.
\<close>

theorem mean_time_per_element_depends_on_row_order:
  "mset [run_a, run_c, run_b] = mset [run_a, run_b, run_c] \<and>
   round_series64 (efficiency64 [run_a, run_b, run_c] (time_per_element64 [run_a, run_b, run_c])) =
     [(1000, Fin (fl64 (3054 / 100)))] \<and>
   round_series64 (efficiency64 [run_a, run_c, run_b] (time_per_element64 [run_a, run_c, run_b])) =
     [(1000, Fin (fl64 (3053 / 100)))] \<and>
   fl64 (3054 / 100) \<noteq> fl64 (3053 / 100)"
proof -
  have "fl64 (3054 / 100) \<noteq> fl64 (3053 / 100)"
    by (simp add: fl64_eval)
  then show ?thesis
    by (simp add: printed_abc printed_acb)
qed

end
